theory Spec2Isabelle
  imports Main "HOL-Library.Word"
begin

section \<open>JavaScript strings\<close>

text \<open>
  A JavaScript string is a sequence of UTF-16 code units, each a 16-bit word, so that the
  white space and line terminators beyond Latin-1 that \<^verbatim>\<open>\s\<close>, \<^verbatim>\<open>.\<close> and
  \<^verbatim>\<open>trim()\<close> know about are inputs of the model. \<open>str\<close> turns an ASCII literal
  of the source into such a sequence.
\<close>

type_synonym codeunit = "16 word"

type_synonym jsstring = "codeunit list"

definition str :: "string \<Rightarrow> jsstring" where
  "str s = map of_char s"

text \<open>\<^verbatim>\<open>s.startsWith(p)\<close> and \<^verbatim>\<open>s.includes(p)\<close>.\<close>

fun startsWith :: "jsstring \<Rightarrow> jsstring \<Rightarrow> bool" where
  "startsWith s [] = True"
| "startsWith [] (p # ps) = False"
| "startsWith (c # cs) (p # ps) = (c = p \<and> startsWith cs ps)"

fun includes_js :: "jsstring \<Rightarrow> jsstring \<Rightarrow> bool" where
  "includes_js [] p = startsWith [] p"
| "includes_js (c # cs) p = (startsWith (c # cs) p \<or> includes_js cs p)"

text \<open>
  \<^verbatim>\<open>s.split('\n')\<close>, for a separator of one code unit: the pieces between the
  separators, so that a string with \<open>n\<close> separators has \<open>n + 1\<close> pieces and the empty
  string has the one piece \<open>''\<close>.
\<close>

fun split :: "jsstring \<Rightarrow> codeunit \<Rightarrow> jsstring list" where
  "split [] sep = [[]]"
| "split (c # cs) sep =
     (if c = sep then [] # split cs sep
      else (case split cs sep of [] \<Rightarrow> [[c]] | l # ls \<Rightarrow> (c # l) # ls))"

text \<open>
  The code units that ECMAScript calls WhiteSpace (TAB, VT, FF, the BOM and the space
  separators of Unicode) and LineTerminator (LF, CR, LS, PS).
\<close>

definition isWhiteSpace :: "codeunit \<Rightarrow> bool" where
  "isWhiteSpace u \<longleftrightarrow>
     u = 0x09 \<or> u = 0x0B \<or> u = 0x0C \<or> u = 0x20 \<or> u = 0xA0 \<or> u = 0x1680 \<or>
     (0x2000 \<le> u \<and> u \<le> 0x200A) \<or> u = 0x202F \<or> u = 0x205F \<or> u = 0x3000 \<or> u = 0xFEFF"

definition isLineTerminator :: "codeunit \<Rightarrow> bool" where
  "isLineTerminator u \<longleftrightarrow> u = 0x0A \<or> u = 0x0D \<or> u = 0x2028 \<or> u = 0x2029"

definition isSpace :: "codeunit \<Rightarrow> bool" where
  "isSpace u \<longleftrightarrow> isWhiteSpace u \<or> isLineTerminator u"

text \<open>\<^verbatim>\<open>s.trim()\<close> removes white space and line terminators from both ends.\<close>

definition trim :: "jsstring \<Rightarrow> jsstring" where
  "trim s = rev (dropWhile isSpace (rev (dropWhile isSpace s)))"

section \<open>Regular expressions\<close>

text \<open>
  Every pattern of the program is an alternation of sequences of character classes, each
  taken once, optionally (\<^verbatim>\<open>?\<close>) or at least \<open>n\<close> times (\<^verbatim>\<open>*\<close>, \<^verbatim>\<open>+\<close>,
  \<^verbatim>\<open>{n,}\<close>). The quantifiers are greedy: the matcher tries the longest repetition
  first and gives code units back one at a time, as the backtracking matcher of
  ECMAScript does.
\<close>

datatype atom =
  One "codeunit \<Rightarrow> bool" | Opt "codeunit \<Rightarrow> bool" | Many nat "codeunit \<Rightarrow> bool"

type_synonym regex = "atom list list"

fun firstSome :: "'a option list \<Rightarrow> 'a option" where
  "firstSome [] = None"
| "firstSome (x # xs) = (case x of Some r \<Rightarrow> Some r | None \<Rightarrow> firstSome xs)"

text \<open>
  \<open>matchSeq as s\<close> matches the sequence \<open>as\<close> at the start of \<open>s\<close> and returns what
  follows the match that the backtracking order finds first.
\<close>

fun matchSeq :: "atom list \<Rightarrow> jsstring \<Rightarrow> jsstring option" where
  "matchSeq [] s = Some s"
| "matchSeq (One p # as) s =
     (case s of [] \<Rightarrow> None | c # cs \<Rightarrow> if p c then matchSeq as cs else None)"
| "matchSeq (Opt p # as) s =
     (case (case s of [] \<Rightarrow> None | c # cs \<Rightarrow> if p c then matchSeq as cs else None) of
        Some r \<Rightarrow> Some r
      | None \<Rightarrow> matchSeq as s)"
| "matchSeq (Many n p # as) s =
     firstSome (map (\<lambda>k. matchSeq as (drop k s)) (rev [n ..< Suc (length (takeWhile p s))]))"

definition matchAt :: "regex \<Rightarrow> jsstring \<Rightarrow> jsstring option" where
  "matchAt r s = firstSome (map (\<lambda>alt. matchSeq alt s) r)"

text \<open>\<^verbatim>\<open>r.test(s)\<close> for a pattern without the g flag: is there a match at some position.\<close>

fun test :: "regex \<Rightarrow> jsstring \<Rightarrow> bool" where
  "test r [] = (matchAt r [] \<noteq> None)"
| "test r (c # cs) = (matchAt r (c # cs) \<noteq> None \<or> test r cs)"

text \<open>
  \<^verbatim>\<open>s.match(r)\<close> for a pattern with the g flag returns the matches found from left to
  right, each search starting where the last match ended (one code unit further after an
  empty match), or null when there is none. \<open>matches\<close> is the list of the matched
  substrings, \<open>match_g\<close> the result of the call.
\<close>

function matches :: "regex \<Rightarrow> jsstring \<Rightarrow> jsstring list" where
  "matches r s =
     (case matchAt r s of
        Some rest \<Rightarrow>
          if length rest < length s then take (length s - length rest) s # matches r rest
          else (case s of [] \<Rightarrow> [[]] | c # cs \<Rightarrow> [] # matches r cs)
      | None \<Rightarrow> (case s of [] \<Rightarrow> [] | c # cs \<Rightarrow> matches r cs))"
  by pat_completeness auto
termination
  by (relation "measure (\<lambda>(r, s). length s)") auto

definition match_g :: "regex \<Rightarrow> jsstring \<Rightarrow> jsstring list option" where
  "match_g r s = (case matches r s of [] \<Rightarrow> None | m # ms \<Rightarrow> Some (m # ms))"

subsection \<open>Character classes of the program's patterns\<close>

text \<open>The class \<^verbatim>\<open>[...]\<close> of the ASCII characters listed.\<close>

definition oneOf :: "string \<Rightarrow> codeunit \<Rightarrow> bool" where
  "oneOf cs u \<longleftrightarrow> u \<in> set (str cs)"

definition isUpperAZ :: "codeunit \<Rightarrow> bool" where
  "isUpperAZ u \<longleftrightarrow> 0x41 \<le> u \<and> u \<le> 0x5A"

definition isLowerAZ :: "codeunit \<Rightarrow> bool" where
  "isLowerAZ u \<longleftrightarrow> 0x61 \<le> u \<and> u \<le> 0x7A"

definition isDigit :: "codeunit \<Rightarrow> bool" where
  "isDigit u \<longleftrightarrow> 0x30 \<le> u \<and> u \<le> 0x39"

text \<open>\<^verbatim>\<open>[a-zA-Z0-9]\<close>; the i flag adds nothing to it.\<close>

definition isAlnum :: "codeunit \<Rightarrow> bool" where
  "isAlnum u \<longleftrightarrow> isLowerAZ u \<or> isUpperAZ u \<or> isDigit u"

text \<open>\<^verbatim>\<open>["']\<close> and \<^verbatim>\<open>[^"']\<close>.\<close>

definition isQuote :: "codeunit \<Rightarrow> bool" where
  "isQuote u \<longleftrightarrow> u = 0x22 \<or> u = 0x27"

text \<open>\<^verbatim>\<open>.\<close> without the s flag: any code unit but a line terminator.\<close>

definition isDot :: "codeunit \<Rightarrow> bool" where
  "isDot u \<longleftrightarrow> \<not> isLineTerminator u"

text \<open>
  A pattern character under the i flag (without the u flag). The canonical form of a
  code unit is its upper case, unless that is longer than one code unit or maps a code
  unit from 128 on into ASCII; so an ASCII letter of a pattern matches its two ASCII
  cases and nothing else, and any other ASCII character matches itself only.
\<close>

definition upperASCII :: "codeunit \<Rightarrow> codeunit" where
  "upperASCII u = (if isLowerAZ u then u - 0x20 else u)"

definition sameCase :: "char \<Rightarrow> codeunit \<Rightarrow> bool" where
  "sameCase c u \<longleftrightarrow> u < 0x80 \<and> upperASCII u = upperASCII (of_char c)"

text \<open>A literal run of characters of a pattern, without and with the i flag.\<close>

definition lit :: "string \<Rightarrow> atom list" where
  "lit cs = map (\<lambda>c. One (\<lambda>u. u = of_char c)) cs"

definition litI :: "string \<Rightarrow> atom list" where
  "litI cs = map (\<lambda>c. One (sameCase c)) cs"

section \<open>The data model (types/index.ts)\<close>

datatype IssueType = Secret | Complexity | Style | PotentialBug

datatype Severity = Low | Medium | High

record CodeIssue =
  type :: IssueType
  severity :: Severity
  message :: jsstring
  file_path :: "jsstring option"
  line :: "nat option"
  suggestion :: "jsstring option"

record AnalysisConfig =
  enableSecretDetection :: bool
  enableComplexityAnalysis :: bool
  maxFileSize :: int

record CommandResult =
  success :: bool
  output_text :: "jsstring option"
  error_text :: "jsstring option"
  warnings :: "jsstring list option"

record FileAnalysis =
  path :: jsstring
  language :: jsstring
  size_bytes :: nat
  complexity :: nat
  issues :: "CodeIssue list"
  suggestions :: "jsstring list"

section \<open>The line scanner (CodeAnalyzer)\<close>

record SecretPattern =
  pattern :: regex
  type_name :: jsstring
  suggestion_text :: jsstring

text \<open>
  \<^verbatim>\<open>/api[_-]?key\s*[=:]\s*["'][a-zA-Z0-9]{20,}["']/i\<close>,
  \<^verbatim>\<open>/password\s*[=:]\s*["'][^"']{8,}["']/i\<close>,
  \<^verbatim>\<open>/-----BEGIN [A-Z ]*PRIVATE KEY-----/\<close> and
  \<^verbatim>\<open>/token\s*[=:]\s*["'][a-zA-Z0-9_-]{32,}["']/i\<close>.
\<close>

definition apiKeyPattern :: regex where
  "apiKeyPattern =
     [litI ''api'' @ [Opt (oneOf ''_-'')] @ litI ''key'' @
      [Many 0 isSpace, One (oneOf ''=:''), Many 0 isSpace, One isQuote,
       Many 20 isAlnum, One isQuote]]"

definition passwordPattern :: regex where
  "passwordPattern =
     [litI ''password'' @
      [Many 0 isSpace, One (oneOf ''=:''), Many 0 isSpace, One isQuote,
       Many 8 (\<lambda>u. \<not> isQuote u), One isQuote]]"

definition privateKeyPattern :: regex where
  "privateKeyPattern =
     [lit ''-----BEGIN '' @ [Many 0 (\<lambda>u. isUpperAZ u \<or> u = 0x20)] @ lit ''PRIVATE KEY-----'']"

definition tokenPattern :: regex where
  "tokenPattern =
     [litI ''token'' @
      [Many 0 isSpace, One (oneOf ''=:''), Many 0 isSpace, One isQuote,
       Many 32 (\<lambda>u. isAlnum u \<or> oneOf ''_-'' u), One isQuote]]"

definition apiKeyRule :: SecretPattern where
  "apiKeyRule =
     \<lparr>pattern = apiKeyPattern, type_name = str ''API key'',
      suggestion_text = str ''Move to environment variable or config file''\<rparr>"

definition passwordRule :: SecretPattern where
  "passwordRule =
     \<lparr>pattern = passwordPattern, type_name = str ''Password'',
      suggestion_text = str ''Use environment variables or secure config''\<rparr>"

definition privateKeyRule :: SecretPattern where
  "privateKeyRule =
     \<lparr>pattern = privateKeyPattern, type_name = str ''Private key'',
      suggestion_text = str ''Store private keys securely, not in code''\<rparr>"

definition tokenRule :: SecretPattern where
  "tokenRule =
     \<lparr>pattern = tokenPattern, type_name = str ''Token'',
      suggestion_text = str ''Use environment variables for tokens''\<rparr>"

definition secretPatterns :: "SecretPattern list" where
  "secretPatterns = [apiKeyRule, passwordRule, privateKeyRule, tokenRule]"

text \<open>
  The array \<open>issues\<close> that the source pushes to is passed in and returned; a
  \<^verbatim>\<open>forEach\<close> over the rules is a \<open>fold\<close>.
\<close>

definition secretIssue :: "SecretPattern \<Rightarrow> nat \<Rightarrow> jsstring \<Rightarrow> CodeIssue" where
  "secretIssue rule lineNumber filePath =
     \<lparr>type = Secret, severity = High,
      message = str ''Potential '' @ type_name rule @ str '' found in code'',
      file_path = Some filePath, line = Some lineNumber,
      suggestion = Some (suggestion_text rule)\<rparr>"

definition checkForSecrets ::
  "jsstring \<Rightarrow> nat \<Rightarrow> jsstring \<Rightarrow> CodeIssue list \<Rightarrow> CodeIssue list" where
  "checkForSecrets line_text lineNumber filePath issues0 =
     fold (\<lambda>rule acc.
             if test (pattern rule) line_text
                \<and> \<not> includes_js line_text (str ''process.env'')
                \<and> \<not> includes_js line_text (str ''$ENV'')
             then acc @ [secretIssue rule lineNumber filePath]
             else acc)
          secretPatterns issues0"

record CommonIssue =
  ci_pattern :: regex
  ci_message :: jsstring
  ci_severity :: Severity
  ci_suggestion :: jsstring

text \<open>
  \<^verbatim>\<open>/console\.log\(/\<close>, \<^verbatim>\<open>/TODO:|FIXME:|HACK:/i\<close> and \<^verbatim>\<open>/eval\s*\(/\<close>.
\<close>

definition consoleLogPattern :: regex where
  "consoleLogPattern = [lit ''console.log('']"

definition todoPattern :: regex where
  "todoPattern = [litI ''TODO:'', litI ''FIXME:'', litI ''HACK:'']"

definition evalPattern :: regex where
  "evalPattern = [lit ''eval'' @ [Many 0 isSpace] @ lit ''('']"

definition consoleLogRule :: CommonIssue where
  "consoleLogRule =
     \<lparr>ci_pattern = consoleLogPattern,
      ci_message = str ''Console.log statement (consider removing for production)'',
      ci_severity = Low,
      ci_suggestion = str ''Use a proper logging library or remove debug logs''\<rparr>"

definition todoRule :: CommonIssue where
  "todoRule =
     \<lparr>ci_pattern = todoPattern,
      ci_message = str ''TODO/FIXME comment found'',
      ci_severity = Low,
      ci_suggestion = str ''Consider addressing this comment or creating an issue''\<rparr>"

definition evalRule :: CommonIssue where
  "evalRule =
     \<lparr>ci_pattern = evalPattern,
      ci_message = str ''Use of eval() can be dangerous'',
      ci_severity = Medium,
      ci_suggestion = str ''Consider safer alternatives to eval()''\<rparr>"

definition commonIssues :: "CommonIssue list" where
  "commonIssues = [consoleLogRule, todoRule, evalRule]"

definition commonIssue :: "CommonIssue \<Rightarrow> nat \<Rightarrow> jsstring \<Rightarrow> CodeIssue" where
  "commonIssue rule lineNumber filePath =
     \<lparr>type = PotentialBug, severity = ci_severity rule, message = ci_message rule,
      file_path = Some filePath, line = Some lineNumber,
      suggestion = Some (ci_suggestion rule)\<rparr>"

definition checkForCommonIssues ::
  "jsstring \<Rightarrow> nat \<Rightarrow> jsstring \<Rightarrow> CodeIssue list \<Rightarrow> CodeIssue list" where
  "checkForCommonIssues line_text lineNumber filePath issues0 =
     fold (\<lambda>rule acc.
             if test (ci_pattern rule) line_text
             then acc @ [commonIssue rule lineNumber filePath]
             else acc)
          commonIssues issues0"

text \<open>
  \<^verbatim>\<open>lines.forEach((line, index) => ...)\<close>: both checks on every line, in order, with
  the line number \<open>index + 1\<close>.
\<close>

fun forEachLine :: "jsstring list \<Rightarrow> nat \<Rightarrow> jsstring \<Rightarrow> CodeIssue list \<Rightarrow> CodeIssue list" where
  "forEachLine [] index filePath issues0 = issues0"
| "forEachLine (l # ls) index filePath issues0 =
     forEachLine ls (index + 1) filePath
       (checkForCommonIssues l (index + 1) filePath
          (checkForSecrets l (index + 1) filePath issues0))"


section \<open>The runtime: file system, glob, path\<close>

text \<open>
  What the program asks of Node and its libraries is a parameter of the model. The file
  system is a snapshot: the same question has the same answer during one call. A thrown
  value is modelled by the string that a template literal makes of it. \<open>path_extname\<close>
  returns the empty string or a string that starts with a dot.
\<close>

type_synonym error = jsstring

record Stats =
  stats_size :: nat
  isDirectory :: bool

record runtime =
  fs_pathExists :: "jsstring \<Rightarrow> bool"
  fs_stat :: "jsstring \<Rightarrow> error + Stats"
  fs_readFile :: "jsstring \<Rightarrow> error + jsstring"
  glob :: "jsstring \<Rightarrow> jsstring \<Rightarrow> bool \<Rightarrow> error + jsstring list"
  path_extname :: "jsstring \<Rightarrow> jsstring"
  toLowerCase :: "jsstring \<Rightarrow> jsstring"

text \<open>
  An asynchronous function returns the effects it had on the outside, in order, and
  either the value thrown or its result.
\<close>

datatype effect =
  PathExists jsstring | Stat jsstring | ReadFile jsstring
| Glob jsstring jsstring bool | ConsoleWarn jsstring error

type_synonym 'a io = "effect list \<times> (error + 'a)"

definition ret :: "'a \<Rightarrow> 'a io" where
  "ret x = ([], Inr x)"

definition throw :: "error \<Rightarrow> 'a io" where
  "throw e = ([], Inl e)"

definition andThen :: "'a io \<Rightarrow> ('a \<Rightarrow> 'b io) \<Rightarrow> 'b io" where
  "andThen m f =
     (case m of
        (t, Inl e) \<Rightarrow> (t, Inl e)
      | (t, Inr x) \<Rightarrow> (case f x of (t', r) \<Rightarrow> (t @ t', r)))"

definition tryCatch :: "'a io \<Rightarrow> (error \<Rightarrow> 'a io) \<Rightarrow> 'a io" where
  "tryCatch m h =
     (case m of
        (t, Inl e) \<Rightarrow> (case h e of (t', r) \<Rightarrow> (t @ t', r))
      | (t, Inr x) \<Rightarrow> (t, Inr x))"

definition pathExists :: "runtime \<Rightarrow> jsstring \<Rightarrow> bool io" where
  "pathExists rt p = ([PathExists p], Inr (fs_pathExists rt p))"

definition stat :: "runtime \<Rightarrow> jsstring \<Rightarrow> Stats io" where
  "stat rt p = ([Stat p], fs_stat rt p)"

definition readFile :: "runtime \<Rightarrow> jsstring \<Rightarrow> jsstring io" where
  "readFile rt p = ([ReadFile p], fs_readFile rt p)"

definition globFiles :: "runtime \<Rightarrow> jsstring \<Rightarrow> jsstring \<Rightarrow> bool \<Rightarrow> jsstring list io" where
  "globFiles rt pat cwd dot = ([Glob pat cwd dot], glob rt pat cwd dot)"

definition consoleWarn :: "jsstring \<Rightarrow> error \<Rightarrow> unit io" where
  "consoleWarn p e = ([ConsoleWarn p e], Inr ())"

text \<open>\<^verbatim>\<open>new Error(msg)\<close>, as a string.\<close>

definition newError :: "jsstring \<Rightarrow> error" where
  "newError msg = str ''Error: '' @ msg"

section \<open>CodeAnalyzer.analyzeFile\<close>

text \<open>
  Only the read can throw inside the \<^verbatim>\<open>try\<close>, and it does so before anything is
  pushed: the handler pushes to the empty array.
\<close>

definition couldNotRead :: "error \<Rightarrow> jsstring \<Rightarrow> CodeIssue" where
  "couldNotRead err filePath =
     \<lparr>type = PotentialBug, severity = Low,
      message = str ''Could not read file: '' @ err,
      file_path = Some filePath, line = None, suggestion = None\<rparr>"

definition CodeAnalyzer_analyzeFile :: "runtime \<Rightarrow> jsstring \<Rightarrow> CodeIssue list io" where
  "CodeAnalyzer_analyzeFile rt filePath =
     tryCatch
       (andThen (readFile rt filePath) (\<lambda>content.
          ret (forEachLine (split content 0x0A) 0 filePath [])))
       (\<lambda>err. ret ([] @ [couldNotRead err filePath]))"


section \<open>FileService\<close>

subsection \<open>detectLanguage\<close>

definition languageMap :: "(jsstring \<times> jsstring) list" where
  "languageMap =
     [(str ''.js'', str ''javascript''), (str ''.mjs'', str ''javascript''),
      (str ''.ts'', str ''typescript''), (str ''.jsx'', str ''jsx''),
      (str ''.tsx'', str ''tsx''), (str ''.py'', str ''python''),
      (str ''.java'', str ''java''), (str ''.cpp'', str ''cpp''),
      (str ''.c'', str ''c''), (str ''.cs'', str ''csharp''),
      (str ''.php'', str ''php''), (str ''.rb'', str ''ruby''),
      (str ''.go'', str ''go''), (str ''.rs'', str ''rust''),
      (str ''.sh'', str ''shell''), (str ''.bash'', str ''shell''),
      (str ''.zsh'', str ''shell''), (str ''.ps1'', str ''powershell''),
      (str ''.sql'', str ''sql''), (str ''.html'', str ''html''),
      (str ''.css'', str ''css''), (str ''.scss'', str ''scss''),
      (str ''.sass'', str ''sass''), (str ''.json'', str ''json''),
      (str ''.xml'', str ''xml''), (str ''.yaml'', str ''yaml''),
      (str ''.yml'', str ''yaml''), (str ''.toml'', str ''toml''),
      (str ''.md'', str ''markdown''), (str ''.dockerfile'', str ''docker''),
      (str ''.vue'', str ''vue''), (str ''.svelte'', str ''svelte'')]"

definition detectLanguage :: "runtime \<Rightarrow> jsstring \<Rightarrow> jsstring" where
  "detectLanguage rt filePath =
     (let ext = toLowerCase rt (path_extname rt filePath)
      in case map_of languageMap ext of Some l \<Rightarrow> l | None \<Rightarrow> str ''text'')"

subsection \<open>calculateComplexity\<close>

text \<open>
  \<^verbatim>\<open>/if\s*\(/g\<close>, \<^verbatim>\<open>/else/g\<close>, \<^verbatim>\<open>/switch\s*\(/g\<close>, \<^verbatim>\<open>/case\s+/g\<close>,
  \<^verbatim>\<open>/\?\s*.*:/g\<close> and \<^verbatim>\<open>/for\s*[(\s]/g\<close>, \<^verbatim>\<open>/while\s*\(/g\<close>,
  \<^verbatim>\<open>/do\s*\{/g\<close>, \<^verbatim>\<open>/\.forEach/g\<close>, \<^verbatim>\<open>/\.map/g\<close>.
\<close>

definition conditionalPatterns :: "regex list" where
  "conditionalPatterns =
     [[lit ''if'' @ [Many 0 isSpace] @ lit ''(''],
      [lit ''else''],
      [lit ''switch'' @ [Many 0 isSpace] @ lit ''(''],
      [lit ''case'' @ [Many 1 isSpace]],
      [lit ''?'' @ [Many 0 isSpace, Many 0 isDot] @ lit '':'']]"

definition loopPatterns :: "regex list" where
  "loopPatterns =
     [[lit ''for'' @ [Many 0 isSpace, One (\<lambda>u. u = 0x28 \<or> isSpace u)]],
      [lit ''while'' @ [Many 0 isSpace] @ lit ''(''],
      [lit ''do'' @ [Many 0 isSpace] @ lit ''{''],
      [lit ''.forEach''],
      [lit ''.map'']]"

text \<open>
  \<^verbatim>\<open>patterns.forEach(pattern => { const matches = line.match(pattern);
  if (matches) counter += matches.length; })\<close>
\<close>

definition addMatches :: "jsstring \<Rightarrow> regex list \<Rightarrow> nat \<Rightarrow> nat" where
  "addMatches line_text patterns counter =
     fold (\<lambda>p acc. case match_g p line_text of None \<Rightarrow> acc | Some ms \<Rightarrow> acc + length ms)
          patterns counter"

fun forLines :: "jsstring list \<Rightarrow> nat \<times> nat \<Rightarrow> nat \<times> nat" where
  "forLines [] (conditionals, loops) = (conditionals, loops)"
| "forLines (l # ls) (conditionals, loops) =
     forLines ls (addMatches l conditionalPatterns conditionals,
                  addMatches l loopPatterns loops)"

definition complexityOf :: "jsstring \<Rightarrow> nat" where
  "complexityOf content =
     (let lines = filter (\<lambda>l. length (trim l) > 0) (split content 0x0A);
          (conditionals, loops) = forLines lines (0, 0);
          complexity = 1 + (conditionals + loops)
      in min 100 complexity)"

definition calculateComplexity :: "runtime \<Rightarrow> jsstring \<Rightarrow> nat io" where
  "calculateComplexity rt filePath =
     tryCatch
       (andThen (readFile rt filePath) (\<lambda>content. ret (complexityOf content)))
       (\<lambda>err. ret 1)"

subsection \<open>generateSuggestions\<close>

definition generateSuggestions :: "CodeIssue list \<Rightarrow> nat \<Rightarrow> jsstring \<Rightarrow> jsstring list" where
  "generateSuggestions issues0 complexity0 language0 =
     (let s0 = [];
          s1 = (if complexity0 > 20
                then s0 @ [str ''Consider breaking this file into smaller, more focused modules'']
                else s0);
          s2 = (if complexity0 > 50
                then s1 @ [str ''High complexity detected - refactoring recommended'']
                else s1);
          secretIssues = length (filter (\<lambda>i. type i = Secret) issues0);
          s3 = (if secretIssues > 0
                then s2 @ [str ''Move sensitive data to environment variables or secure config files'']
                else s2);
          todoCount = length (filter (\<lambda>i. includes_js (message i) (str ''TODO'')) issues0);
          s4 = (if todoCount > 3
                then s3 @ [str ''Consider addressing TODO comments or creating issues for them'']
                else s3);
          s5 = (if language0 = str ''javascript'' \<or> language0 = str ''typescript''
                then s4 @ [str ''Consider using ESLint and Prettier for code quality'']
                else s4)
      in s5)"

subsection \<open>analyzeFile\<close>

text \<open>
  \<^verbatim>\<open>(stats.size / 1024 / 1024).toFixed(1)\<close>. A size below \<open>2^53\<close> is a double, the
  two divisions by a power of two are exact, and \<^verbatim>\<open>toFixed(1)\<close> takes the number of
  tenths nearest to the exact quotient, the larger one on a tie.
\<close>

fun digits :: "nat \<Rightarrow> jsstring" where
  "digits n = (if n < 10 then [of_nat (48 + n)] else digits (n div 10) @ [of_nat (48 + n mod 10)])"

definition megabytes :: "nat \<Rightarrow> jsstring" where
  "megabytes n =
     (let tenths = (20 * n + 1048576) div 2097152
      in digits (tenths div 10) @ str ''.'' @ digits (tenths mod 10))"

definition tooLarge :: "nat \<Rightarrow> CodeIssue" where
  "tooLarge n =
     \<lparr>type = PotentialBug, severity = Low,
      message = str ''File too large to analyze ('' @ megabytes n @ str ''MB)'',
      file_path = None, line = None,
      suggestion = Some (str ''Consider breaking this file into smaller modules'')\<rparr>"

definition FileService_analyzeFile ::
  "runtime \<Rightarrow> AnalysisConfig \<Rightarrow> jsstring \<Rightarrow> FileAnalysis io" where
  "FileService_analyzeFile rt config filePath =
     andThen (stat rt filePath) (\<lambda>stats.
       if int (stats_size stats) > maxFileSize config then
         ret \<lparr>path = filePath, language = detectLanguage rt filePath,
              size_bytes = stats_size stats, complexity = 0,
              issues = [tooLarge (stats_size stats)],
              suggestions = [str ''File is too large - consider refactoring into smaller files'']\<rparr>
       else
         let language0 = detectLanguage rt filePath in
         andThen (if enableSecretDetection config
                  then CodeAnalyzer_analyzeFile rt filePath else ret []) (\<lambda>issues0.
         andThen (if enableComplexityAnalysis config
                  then calculateComplexity rt filePath else ret 0) (\<lambda>complexity0.
         let suggestions0 = generateSuggestions issues0 complexity0 language0 in
         ret \<lparr>path = filePath, language = language0, size_bytes = stats_size stats,
              complexity = complexity0, issues = issues0, suggestions = suggestions0\<rparr>)))"

subsection \<open>analyzeFiles\<close>

record AnalysisOptions =
  recursive :: "bool option"
  includeHidden :: "bool option"
  maxFiles :: "int option"

text \<open>\<^verbatim>\<open>xs.slice(0, n)\<close>: a negative \<open>n\<close> counts from the end.\<close>

definition slice0 :: "'a list \<Rightarrow> int \<Rightarrow> 'a list" where
  "slice0 xs n = (if n < 0 then take (nat (int (length xs) + n)) xs else take (nat n) xs)"

text \<open>
  The loop over the files: the analysis of each file in a \<^verbatim>\<open>try\<close> whose handler
  prints a warning and goes on.
\<close>

fun forFiles ::
  "runtime \<Rightarrow> AnalysisConfig \<Rightarrow> jsstring list \<Rightarrow> FileAnalysis list \<Rightarrow> FileAnalysis list io" where
  "forFiles rt config [] results = ret results"
| "forFiles rt config (filePath # rest) results =
     (case tryCatch
             (andThen (FileService_analyzeFile rt config filePath) (\<lambda>analysis.
                ret (results @ [analysis])))
             (\<lambda>err. andThen (consoleWarn filePath err) (\<lambda>u. ret results)) of
        (t, Inl e) \<Rightarrow> (t, Inl e)
      | (t, Inr results') \<Rightarrow>
          (case forFiles rt config rest results' of (t', r) \<Rightarrow> (t @ t', r)))"

text \<open>
  \<^verbatim>\<open>options.recursive ? '**/*' : '*'\<close>, \<^verbatim>\<open>options.includeHidden ?? false\<close> and
  \<^verbatim>\<open>options.maxFiles ? files.slice(0, options.maxFiles) : files\<close>.
\<close>

definition globPattern :: "AnalysisOptions \<Rightarrow> jsstring" where
  "globPattern options = (if recursive options = Some True then str ''**/*'' else str ''*'')"

definition globDot :: "AnalysisOptions \<Rightarrow> bool" where
  "globDot options = (case includeHidden options of None \<Rightarrow> False | Some b \<Rightarrow> b)"

definition filesToAnalyze :: "AnalysisOptions \<Rightarrow> jsstring list \<Rightarrow> jsstring list" where
  "filesToAnalyze options files =
     (case maxFiles options of
        None \<Rightarrow> files
      | Some n \<Rightarrow> if n \<noteq> 0 then slice0 files n else files)"

definition analyzeFiles ::
  "runtime \<Rightarrow> AnalysisConfig \<Rightarrow> jsstring \<Rightarrow> AnalysisOptions \<Rightarrow> FileAnalysis list io" where
  "analyzeFiles rt config targetPath options =
     andThen (pathExists rt targetPath) (\<lambda>found.
       if \<not> found then throw (newError (str ''Path does not exist: '' @ targetPath))
       else
         andThen (stat rt targetPath) (\<lambda>stats.
           if isDirectory stats then
             andThen (globFiles rt (globPattern options) targetPath (globDot options)) (\<lambda>files.
               forFiles rt config (filesToAnalyze options files) [])
           else
             andThen (FileService_analyzeFile rt config targetPath) (\<lambda>analysis.
               ret ([] @ [analysis]))))"

subsection \<open>readFile\<close>

definition FileService_readFile ::
  "runtime \<Rightarrow> AnalysisConfig \<Rightarrow> jsstring \<Rightarrow> CommandResult io" where
  "FileService_readFile rt config filePath =
     tryCatch
       (andThen (pathExists rt filePath) (\<lambda>found.
          if \<not> found then
            ret \<lparr>success = False, output_text = None,
                 error_text = Some (str ''File does not exist: '' @ filePath),
                 warnings = None\<rparr>
          else
            andThen (stat rt filePath) (\<lambda>stats.
              if int (stats_size stats) > maxFileSize config then
                ret \<lparr>success = False, output_text = None,
                     error_text =
                       Some (str ''File too large ('' @ megabytes (stats_size stats) @ str ''MB)''),
                     warnings =
                       Some [str ''Consider viewing this file in chunks or using a dedicated viewer'']\<rparr>
              else
                andThen (readFile rt filePath) (\<lambda>content.
                  ret \<lparr>success = True, output_text = Some content,
                       error_text = None, warnings = None\<rparr>))))
       (\<lambda>err.
          ret \<lparr>success = False, output_text = None,
               error_text = Some (str ''Failed to read file: '' @ err),
               warnings = None\<rparr>)"

section \<open>Notions of the specification, and a fixture\<close>

text \<open>
  The two markers of an environment variable, and the findings that the specification
  asks of one line: a secret finding for every secret rule whose pattern matches a line
  without marker, then a finding for every common-issue rule whose pattern matches.
\<close>

definition envMarker :: "jsstring \<Rightarrow> bool" where
  "envMarker l \<longleftrightarrow> includes_js l (str ''process.env'') \<or> includes_js l (str ''$ENV'')"

definition secretFindings :: "jsstring \<Rightarrow> nat \<Rightarrow> jsstring \<Rightarrow> CodeIssue list" where
  "secretFindings l n p =
     map (\<lambda>r. secretIssue r n p)
         (filter (\<lambda>r. test (pattern r) l \<and> \<not> envMarker l) secretPatterns)"

definition commonFindings :: "jsstring \<Rightarrow> nat \<Rightarrow> jsstring \<Rightarrow> CodeIssue list" where
  "commonFindings l n p =
     map (\<lambda>r. commonIssue r n p) (filter (\<lambda>r. test (ci_pattern r) l) commonIssues)"

definition lineFindings :: "jsstring \<Rightarrow> nat \<Rightarrow> jsstring \<Rightarrow> CodeIssue list" where
  "lineFindings l n p = secretFindings l n p @ commonFindings l n p"

definition mockRuntime :: "jsstring \<Rightarrow> runtime" where
  "mockRuntime content =
     \<lparr>fs_pathExists = (\<lambda>p. True),
      fs_stat = (\<lambda>p. Inr \<lparr>stats_size = length content, isDirectory = False\<rparr>),
      fs_readFile = (\<lambda>p. Inr content),
      glob = (\<lambda>pat cwd dot. Inr []),
      path_extname = (\<lambda>p. []),
      toLowerCase = (\<lambda>s. s)\<rparr>"

text \<open>
  A runtime whose reads fail with the error given, one for a directory \<^verbatim>\<open>/d\<close> that
  holds two files and a dangling link between them, and a configuration.
\<close>

definition failingRuntime :: "error \<Rightarrow> runtime" where
  "failingRuntime err =
     \<lparr>fs_pathExists = (\<lambda>p. True),
      fs_stat = (\<lambda>p. Inr \<lparr>stats_size = 0, isDirectory = False\<rparr>),
      fs_readFile = (\<lambda>p. Inl err),
      glob = (\<lambda>pat cwd dot. Inr []),
      path_extname = (\<lambda>p. []),
      toLowerCase = (\<lambda>s. s)\<rparr>"

definition dirRuntime :: runtime where
  "dirRuntime =
     \<lparr>fs_pathExists = (\<lambda>p. p \<in> set [str ''/d'', str ''/d/a'', str ''/d/c'']),
      fs_stat = (\<lambda>p.
         if p = str ''/d'' then Inr \<lparr>stats_size = 4096, isDirectory = True\<rparr>
         else if p = str ''/d/a'' then Inr \<lparr>stats_size = 6, isDirectory = False\<rparr>
         else if p = str ''/d/c'' then Inr \<lparr>stats_size = 6, isDirectory = False\<rparr>
         else Inl (str ''Error: ENOENT'')),
      fs_readFile = (\<lambda>p.
         if p = str ''/d/a'' then Inr (str ''if (x)'')
         else if p = str ''/d/c'' then Inr (str ''TODO:y'')
         else Inl (str ''Error: ENOENT'')),
      glob = (\<lambda>pat cwd dot.
         if cwd = str ''/d'' then Inr [str ''/d/a'', str ''/d/b'', str ''/d/c''] else Inr []),
      path_extname = (\<lambda>p. []),
      toLowerCase = (\<lambda>s. s)\<rparr>"

definition testConfig :: "bool \<Rightarrow> bool \<Rightarrow> int \<Rightarrow> AnalysisConfig" where
  "testConfig secrets complexity0 limit =
     \<lparr>enableSecretDetection = secrets, enableComplexityAnalysis = complexity0,
      maxFileSize = limit\<rparr>"

text \<open>\<^verbatim>\<open>lines.join('\n')\<close>, the inverse of \<^verbatim>\<open>split('\n')\<close>.\<close>

fun join :: "jsstring list \<Rightarrow> codeunit \<Rightarrow> jsstring" where
  "join [] sep = []"
| "join [l] sep = l"
| "join (l # l' # ls) sep = l @ sep # join (l' # ls) sep"

text \<open>
  The count of the specification: the occurrences of the conditional and of the loop
  patterns, over the lines that are not blank.
\<close>

definition occurrences :: "regex list \<Rightarrow> jsstring \<Rightarrow> nat" where
  "occurrences ps l = sum_list (map (\<lambda>p. length (matches p l)) ps)"

definition totalOccurrences :: "jsstring \<Rightarrow> nat" where
  "totalOccurrences content =
     sum_list (map (\<lambda>l. occurrences conditionalPatterns l + occurrences loopPatterns l)
                   (filter (\<lambda>l. trim l \<noteq> []) (split content 0x0A)))"

text \<open>The reports of the files whose analysis does not throw, in the order of the files.\<close>

definition successes :: "runtime \<Rightarrow> AnalysisConfig \<Rightarrow> jsstring list \<Rightarrow> FileAnalysis list" where
  "successes rt config files =
     List.map_filter
       (\<lambda>p. case snd (FileService_analyzeFile rt config p) of Inl e \<Rightarrow> None | Inr a \<Rightarrow> Some a)
       files"

text \<open>
  Inputs: the path that the tests of the analyzer use, a line with the key of those
  tests, two lines whose quoted literal has the shape of a password and holds a marker,
  and two small files.
\<close>

definition fakePath :: jsstring where
  "fakePath = str ''/fake/path''"

definition lineApiKey :: jsstring where
  "lineApiKey = str ''const api_key = 'abcdef1234567890abcdef1234567890';''"

definition lineEnvPassword :: jsstring where
  "lineEnvPassword = str ''password='$ENV.KEY';''"

definition lineProcessEnvPassword :: jsstring where
  "lineProcessEnvPassword = str ''password='process.env.KEY';''"

definition sourceWithMarker :: jsstring where
  "sourceWithMarker = str ''a = 1'' @ [0x0A] @ lineEnvPassword"

definition sampleSource :: jsstring where
  "sampleSource = str ''if (a) console.log(a) //todo:'' @ [0x0A] @ [0x0A] @ str ''else x''"

definition cliOptions :: AnalysisOptions where
  "cliOptions = \<lparr>recursive = None, includeHidden = Some False, maxFiles = Some 50\<rparr>"

section \<open>The line scanner as a list of findings per line\<close>

lemma fold_push:
  "fold (\<lambda>r acc. if P r then acc @ [f r] else acc) rs acc = acc @ map f (filter P rs)"
  by (induction rs arbitrary: acc) simp_all

lemma checkForSecrets_eq: "checkForSecrets l n p acc = acc @ secretFindings l n p"
  unfolding checkForSecrets_def secretFindings_def envMarker_def
  by (simp add: fold_push)

lemma checkForCommonIssues_eq: "checkForCommonIssues l n p acc = acc @ commonFindings l n p"
  unfolding checkForCommonIssues_def commonFindings_def by (simp add: fold_push)

lemma forEachLine_eq:
  "forEachLine ls idx p acc =
     acc @ concat (map (\<lambda>(i, l). lineFindings l (Suc i) p) (enumerate idx ls))"
  by (induction ls arbitrary: idx acc)
     (simp_all add: checkForSecrets_eq checkForCommonIssues_eq lineFindings_def)

lemma analyzeFile_read_ok:
  "fs_readFile rt p = Inr content \<Longrightarrow>
   CodeAnalyzer_analyzeFile rt p =
     ([ReadFile p], Inr (concat (map (\<lambda>(i, l). lineFindings l (Suc i) p) (enumerate 0 (split content 0x0A)))))"
  by (simp add: CodeAnalyzer_analyzeFile_def tryCatch_def andThen_def readFile_def ret_def forEachLine_eq)

lemma analyzeFile_read_fails:
  "fs_readFile rt p = Inl err \<Longrightarrow>
   CodeAnalyzer_analyzeFile rt p = ([ReadFile p], Inr [couldNotRead err p])"
  by (simp add: CodeAnalyzer_analyzeFile_def tryCatch_def andThen_def readFile_def ret_def)

lemma startsWith_append: "startsWith (p @ r) p"
  by (induction p) simp_all

lemma startsWith_includes: "startsWith s p \<Longrightarrow> includes_js s p"
  by (cases s) simp_all

lemma includes_prefix: "includes_js (p @ r) p"
  by (rule startsWith_includes) (rule startsWith_append)

lemma secretFindings_marker: "envMarker l \<Longrightarrow> secretFindings l n p = []"
  by (simp add: secretFindings_def)

lemma secretFindings_line: "i \<in> set (secretFindings l n p) \<Longrightarrow> type i = Secret \<and> severity i = High \<and> line i = Some n"
  by (auto simp: secretFindings_def secretIssue_def)

lemma commonFindings_line: "i \<in> set (commonFindings l n p) \<Longrightarrow> type i = PotentialBug \<and> line i = Some n"
  by (auto simp: commonFindings_def commonIssue_def)

lemma split_length: "length (split s sep) = Suc (count_list s sep)"
  by (induction s) (auto split: list.splits)

lemma type_names_distinct: "distinct (map type_name secretPatterns)"
  by (simp add: secretPatterns_def apiKeyRule_def passwordRule_def privateKeyRule_def
        tokenRule_def str_def)

lemma secretIssue_inj:
  assumes "r \<in> set secretPatterns" "r' \<in> set secretPatterns"
    and "secretIssue r n p = secretIssue r' n p"
  shows "r = r'"
proof -
  from assms(3) have "message (secretIssue r n p) = message (secretIssue r' n p)" by simp
  then have "type_name r = type_name r'" by (simp add: secretIssue_def)
  moreover have "inj_on type_name (set secretPatterns)"
    using type_names_distinct by (simp add: distinct_map)
  ultimately show ?thesis using assms(1,2) by (auto dest: inj_onD)
qed

lemma secretPatterns_distinct: "distinct secretPatterns"
  using type_names_distinct by (simp add: distinct_map) 


lemma one_finding_per_rule:
  assumes r: "r \<in> set secretPatterns" and P: "P r"
  shows "length (filter (\<lambda>i. i = secretIssue r n p)
                  (map (\<lambda>r. secretIssue r n p) (filter P secretPatterns))) = 1"
proof -
  have "filter (\<lambda>x. secretIssue x n p = secretIssue r n p) (filter P secretPatterns)
        = filter (\<lambda>x. x = r) (filter P secretPatterns)"
    by (rule filter_cong) (auto dest: secretIssue_inj [OF _ r])
  then have "length (filter (\<lambda>i. i = secretIssue r n p)
                  (map (\<lambda>r. secretIssue r n p) (filter P secretPatterns)))
           = length (filter (\<lambda>x. x = r) (filter P secretPatterns))"
    by (simp add: filter_map o_def)
  also have "\<dots> = card ({x. x = r} \<inter> set (filter P secretPatterns))"
    using secretPatterns_distinct by (intro distinct_length_filter) simp
  also have "{x. x = r} \<inter> set (filter P secretPatterns) = {r}" using r P by auto
  finally show ?thesis by simp
qed

lemma split_nonempty: "split s sep \<noteq> []"
  by (induction s) (auto split: list.splits)

lemma join_split: "join (split s sep) sep = s"
proof (induction s)
  case Nil
  show ?case by simp
next
  case (Cons c cs)
  obtain l ls where e: "split cs sep = l # ls"
    using split_nonempty [of cs sep] by (cases "split cs sep") auto
  with Cons show ?case by (cases ls) auto
qed

lemma split_no_sep: "l \<in> set (split s sep) \<Longrightarrow> sep \<notin> set l"
  by (induction s arbitrary: l) (auto split: list.splits if_splits)

lemma calculateComplexity_read_fails:
  "fs_readFile rt p = Inl err \<Longrightarrow> calculateComplexity rt p = ([ReadFile p], Inr 1)"
  by (simp add: calculateComplexity_def tryCatch_def andThen_def readFile_def ret_def)

lemma couldNotRead_indicator:
  "includes_js (message (couldNotRead err p)) (str ''Could not read file'')"
proof -
  have "str ''Could not read file: '' @ err = str ''Could not read file'' @ (str '': '' @ err)"
    by (simp add: str_def)
  then have "includes_js (str ''Could not read file: '' @ err) (str ''Could not read file'')"
    by (simp only: includes_prefix)
  then show ?thesis by (simp add: couldNotRead_def)
qed

lemma match_g_add:
  "(case match_g r l of None \<Rightarrow> acc | Some ms \<Rightarrow> acc + length ms) = acc + length (matches r l)"
  by (cases "matches r l") (simp_all add: match_g_def)

lemma addMatches_eq: "addMatches l ps acc = acc + occurrences ps l"
  unfolding addMatches_def occurrences_def
  by (induction ps arbitrary: acc) (simp_all add: match_g_add)

lemma forLines_eq:
  "forLines ls (c, k) =
     (c + sum_list (map (occurrences conditionalPatterns) ls),
      k + sum_list (map (occurrences loopPatterns) ls))"
  by (induction ls arbitrary: c k) (simp_all add: addMatches_eq)

lemma complexityOf_eq: "complexityOf content = min 100 (1 + totalOccurrences content)"
proof -
  have "sum_list (map (occurrences conditionalPatterns) ls) + sum_list (map (occurrences loopPatterns) ls)
        = sum_list (map (\<lambda>l. occurrences conditionalPatterns l + occurrences loopPatterns l) ls)" for ls
    by (induction ls) simp_all
  then show ?thesis
    by (simp add: complexityOf_def totalOccurrences_def forLines_eq)
qed

lemma calculateComplexity_read_ok:
  "fs_readFile rt p = Inr content \<Longrightarrow>
   calculateComplexity rt p = ([ReadFile p], Inr (complexityOf content))"
  by (simp add: calculateComplexity_def tryCatch_def andThen_def readFile_def ret_def)

lemma calculateComplexity_cases:
  "calculateComplexity rt p =
     ([ReadFile p], Inr (case fs_readFile rt p of Inl e \<Rightarrow> 1 | Inr c \<Rightarrow> complexityOf c))"
  by (cases "fs_readFile rt p")
     (simp_all add: calculateComplexity_read_ok calculateComplexity_read_fails)

lemma analyzeFile_cases:
  "CodeAnalyzer_analyzeFile rt p =
     ([ReadFile p],
      Inr (case fs_readFile rt p of
             Inl e \<Rightarrow> [couldNotRead e p]
           | Inr c \<Rightarrow> forEachLine (split c 0x0A) 0 p []))"
  by (cases "fs_readFile rt p")
     (simp_all add: CodeAnalyzer_analyzeFile_def tryCatch_def andThen_def readFile_def ret_def)

lemma FileService_analyzeFile_stat_fails:
  "fs_stat rt p = Inl e \<Longrightarrow> FileService_analyzeFile rt config p = ([Stat p], Inl e)"
  by (simp add: FileService_analyzeFile_def andThen_def stat_def)

lemma FileService_analyzeFile_oversize:
  "fs_stat rt p = Inr st \<Longrightarrow> int (stats_size st) > maxFileSize config \<Longrightarrow>
   FileService_analyzeFile rt config p =
     ([Stat p],
      Inr \<lparr>path = p, language = detectLanguage rt p, size_bytes = stats_size st, complexity = 0,
           issues = [tooLarge (stats_size st)],
           suggestions = [str ''File is too large - consider refactoring into smaller files'']\<rparr>)"
  by (simp add: FileService_analyzeFile_def andThen_def stat_def ret_def)

lemma FileService_analyzeFile_within:
  assumes "fs_stat rt p = Inr st" and "\<not> int (stats_size st) > maxFileSize config"
  shows "FileService_analyzeFile rt config p =
     ([Stat p] @ (if enableSecretDetection config then [ReadFile p] else [])
               @ (if enableComplexityAnalysis config then [ReadFile p] else []),
      Inr \<lparr>path = p, language = detectLanguage rt p, size_bytes = stats_size st,
           complexity = (if enableComplexityAnalysis config
                         then (case fs_readFile rt p of Inl e \<Rightarrow> 1 | Inr c \<Rightarrow> complexityOf c)
                         else 0),
           issues = (if enableSecretDetection config
                     then (case fs_readFile rt p of
                             Inl e \<Rightarrow> [couldNotRead e p]
                           | Inr c \<Rightarrow> forEachLine (split c 0x0A) 0 p [])
                     else []),
           suggestions =
             generateSuggestions
               (if enableSecretDetection config
                then (case fs_readFile rt p of
                        Inl e \<Rightarrow> [couldNotRead e p]
                      | Inr c \<Rightarrow> forEachLine (split c 0x0A) 0 p [])
                else [])
               (if enableComplexityAnalysis config
                then (case fs_readFile rt p of Inl e \<Rightarrow> 1 | Inr c \<Rightarrow> complexityOf c)
                else 0)
               (detectLanguage rt p)\<rparr>)"
  using assms
  by (simp add: FileService_analyzeFile_def andThen_def stat_def ret_def
        analyzeFile_cases calculateComplexity_cases Let_def)

lemma FileService_analyzeFile_stat_ok:
  "fs_stat rt p = Inr st \<Longrightarrow> \<exists>a. snd (FileService_analyzeFile rt config p) = Inr a"
  by (cases "int (stats_size st) > maxFileSize config")
     (simp_all add: FileService_analyzeFile_oversize FileService_analyzeFile_within)

lemma forFiles_step:
  "forFiles rt config (f # fs) results =
     (case snd (FileService_analyzeFile rt config f) of
        Inl e \<Rightarrow>
          (fst (FileService_analyzeFile rt config f) @ [ConsoleWarn f e]
             @ fst (forFiles rt config fs results),
           snd (forFiles rt config fs results))
      | Inr a \<Rightarrow>
          (fst (FileService_analyzeFile rt config f)
             @ fst (forFiles rt config fs (results @ [a])),
           snd (forFiles rt config fs (results @ [a]))))"
  by (cases "FileService_analyzeFile rt config f")
     (auto simp: tryCatch_def andThen_def consoleWarn_def ret_def split: sum.splits prod.splits)

lemma forFiles_result:
  "snd (forFiles rt config fs results) = Inr (results @ successes rt config fs)"
proof (induction fs arbitrary: results)
  case Nil
  show ?case by (simp add: ret_def successes_def)
next
  case (Cons f fs)
  show ?case
    by (cases "snd (FileService_analyzeFile rt config f)")
       (simp_all add: forFiles_step Cons successes_def del: forFiles.simps)
qed

lemma FileService_analyzeFile_stats: "Stat p \<in> set (fst (FileService_analyzeFile rt config p))"
  by (cases "fs_stat rt p")
     (auto simp: FileService_analyzeFile_def andThen_def stat_def split: prod.splits sum.splits)

lemma forFiles_effects:
  "f \<in> set fs \<Longrightarrow> Stat f \<in> set (fst (forFiles rt config fs results))"
proof (induction fs arbitrary: results)
  case Nil
  then show ?case by simp
next
  case (Cons g fs)
  then show ?case
    using FileService_analyzeFile_stats [of g rt config]
    by (cases "snd (FileService_analyzeFile rt config g)")
       (auto simp: forFiles_step simp del: forFiles.simps)
qed

lemma FileService_readFile_within:
  assumes "fs_pathExists rt p" and "fs_stat rt p = Inr st"
    and "\<not> int (stats_size st) > maxFileSize config"
  shows "FileService_readFile rt config p =
     ([PathExists p, Stat p, ReadFile p],
      Inr (case fs_readFile rt p of
             Inl e \<Rightarrow> \<lparr>success = False, output_text = None,
                       error_text = Some (str ''Failed to read file: '' @ e), warnings = None\<rparr>
           | Inr content \<Rightarrow> \<lparr>success = True, output_text = Some content,
                             error_text = None, warnings = None\<rparr>))"
  using assms
  by (cases "fs_readFile rt p")
     (simp_all add: FileService_readFile_def tryCatch_def andThen_def pathExists_def stat_def
        readFile_def ret_def)

section \<open>The sample file, evaluated\<close>

lemma sampleSource_findings:
  "forEachLine (split sampleSource 0x0A) 0 fakePath [] =
     [commonIssue consoleLogRule 1 fakePath, commonIssue todoRule 1 fakePath]"
  by code_simp

lemma sampleSource_occurrences: "totalOccurrences sampleSource = 2"
  by code_simp

lemma sampleSource_read:
  "fs_readFile (mockRuntime sampleSource) fakePath = Inr sampleSource"
  by (simp add: mockRuntime_def)

lemma sampleSource_stat:
  "fs_stat (mockRuntime sampleSource) fakePath = Inr \<lparr>stats_size = 37, isDirectory = False\<rparr>"
  by (simp add: mockRuntime_def sampleSource_def str_def)

lemma sampleSource_language: "detectLanguage (mockRuntime sampleSource) fakePath = str ''text''"
  by code_simp

section \<open>The claims\<close>

text \<open>
  C1. A line that contains \<^verbatim>\<open>process.env\<close> or \<^verbatim>\<open>$ENV\<close> gets no secret finding,
  whatever secret pattern it matches: the secret check leaves the findings as they were,
  the findings of the line hold no secret, and the findings of a file that was read hold
  no secret with the number of such a line.
\<close>

theorem env_marker_suppresses_secret_findings:
  assumes "includes_js l (str ''process.env'') \<or> includes_js l (str ''$ENV'')"
  shows "checkForSecrets l n p acc = acc
       \<and> (\<forall>i \<in> set (checkForCommonIssues l n p (checkForSecrets l n p [])). type i \<noteq> Secret)
       \<and> (\<forall>rt content k.
            fs_readFile rt p = Inr content \<and> k < length (split content 0x0A)
            \<and> split content 0x0A ! k = l \<longrightarrow>
            (\<exists>found. snd (CodeAnalyzer_analyzeFile rt p) = Inr found
               \<and> \<not> (\<exists>i \<in> set found. type i = Secret \<and> line i = Some (k + 1))))"
proof -
  have m: "envMarker l" using assms by (simp add: envMarker_def)
  have a: "checkForSecrets l n p acc = acc"
    by (simp add: checkForSecrets_eq secretFindings_marker [OF m])
  have b: "\<forall>i \<in> set (checkForCommonIssues l n p (checkForSecrets l n p [])). type i \<noteq> Secret"
    by (auto simp: checkForSecrets_eq checkForCommonIssues_eq secretFindings_marker [OF m]
             dest: commonFindings_line)
  have c: "\<exists>found. snd (CodeAnalyzer_analyzeFile rt p) = Inr found
           \<and> \<not> (\<exists>i \<in> set found. type i = Secret \<and> line i = Some (k + 1))"
    if r: "fs_readFile rt p = Inr content" and k: "k < length (split content 0x0A)"
      and l: "split content 0x0A ! k = l" for rt content k
  proof -
    let ?ls = "split content 0x0A"
    let ?found = "concat (map (\<lambda>(i, l). lineFindings l (Suc i) p) (enumerate 0 ?ls))"
    have "\<not> (type i = Secret \<and> line i = Some (k + 1))" if "i \<in> set ?found" for i
    proof
      assume s: "type i = Secret \<and> line i = Some (k + 1)"
      from that obtain j l' where jl: "(j, l') \<in> set (enumerate 0 ?ls)"
        and i: "i \<in> set (lineFindings l' (Suc j) p)" by auto
      from i s have "i \<in> set (secretFindings l' (Suc j) p)"
        by (auto simp: lineFindings_def dest: commonFindings_line)
      then have "line i = Some (Suc j)" and ne: "secretFindings l' (Suc j) p \<noteq> []"
        by (auto dest: secretFindings_line)
      with s have "j = k" by simp
      with jl l have "l' = l" by (simp add: in_set_enumerate_eq)
      with ne m show False by (simp add: secretFindings_marker)
    qed
    then show ?thesis using analyzeFile_read_ok [OF r] by auto
  qed
  from a b c show ?thesis by blast
qed

theorem env_marker_suppresses_secret_findings_witness:
  "(includes_js lineEnvPassword (str ''process.env'') \<or> includes_js lineEnvPassword (str ''$ENV''))
   \<and> test (pattern passwordRule) lineEnvPassword
   \<and> checkForSecrets lineEnvPassword 2 fakePath [] = []
   \<and> fs_readFile (mockRuntime sourceWithMarker) fakePath = Inr sourceWithMarker
   \<and> 1 < length (split sourceWithMarker 0x0A)
   \<and> split sourceWithMarker 0x0A ! 1 = lineEnvPassword
   \<and> snd (CodeAnalyzer_analyzeFile (mockRuntime sourceWithMarker) fakePath) = Inr []"
proof -
  have m: "includes_js lineEnvPassword (str ''$ENV'')" by code_simp
  have t: "test (pattern passwordRule) lineEnvPassword" by code_simp
  have r: "fs_readFile (mockRuntime sourceWithMarker) fakePath = Inr sourceWithMarker"
    by (simp add: mockRuntime_def)
  have k: "1 < length (split sourceWithMarker 0x0A)" by code_simp
  have l: "split sourceWithMarker 0x0A ! 1 = lineEnvPassword" by code_simp
  have a: "snd (CodeAnalyzer_analyzeFile (mockRuntime sourceWithMarker) fakePath) = Inr []"
    by code_simp
  have "checkForSecrets lineEnvPassword 2 fakePath [] = []"
    using env_marker_suppresses_secret_findings [OF disjI2 [OF m], of 2 fakePath "[]"]
    by (rule conjunct1)
  with m t r k l a show ?thesis by simp
qed

text \<open>
  C2. On a line without marker the secret check appends, in the order of the rules, the
  finding of every secret rule whose pattern matches the line: exactly one finding for
  each such rule, of type secret and of severity high.
\<close>

theorem one_secret_finding_per_matching_rule:
  assumes "\<not> includes_js l (str ''process.env'')" and "\<not> includes_js l (str ''$ENV'')"
  shows "checkForSecrets l n p acc =
           acc @ map (\<lambda>r. secretIssue r n p) (filter (\<lambda>r. test (pattern r) l) secretPatterns)
       \<and> (\<forall>r \<in> set secretPatterns. test (pattern r) l \<longrightarrow>
            length (filter (\<lambda>i. i = secretIssue r n p) (checkForSecrets l n p [])) = 1
            \<and> type (secretIssue r n p) = Secret \<and> severity (secretIssue r n p) = High)
       \<and> (\<forall>i \<in> set (checkForSecrets l n p []). type i = Secret \<and> severity i = High)"
proof -
  have m: "\<not> envMarker l" using assms by (simp add: envMarker_def)
  have e: "checkForSecrets l n p acc =
           acc @ map (\<lambda>r. secretIssue r n p) (filter (\<lambda>r. test (pattern r) l) secretPatterns)" for acc
    by (simp add: checkForSecrets_eq secretFindings_def m)
  have one: "length (filter (\<lambda>i. i = secretIssue r n p) (checkForSecrets l n p [])) = 1"
    if "r \<in> set secretPatterns" "test (pattern r) l" for r
    using one_finding_per_rule [OF that(1), of "\<lambda>r. test (pattern r) l", OF that(2)]
    by (simp only: e append_Nil)
  have ts: "type (secretIssue r n p) = Secret \<and> severity (secretIssue r n p) = High" for r
    by (simp add: secretIssue_def)
  have all: "\<forall>i \<in> set (checkForSecrets l n p []). type i = Secret \<and> severity i = High"
    by (auto simp: checkForSecrets_eq dest: secretFindings_line)
  show ?thesis using e one ts all by blast
qed

theorem one_secret_finding_per_matching_rule_witness:
  "\<not> includes_js lineApiKey (str ''process.env'') \<and> \<not> includes_js lineApiKey (str ''$ENV'')
   \<and> apiKeyRule \<in> set secretPatterns \<and> test (pattern apiKeyRule) lineApiKey
   \<and> length (filter (\<lambda>i. i = secretIssue apiKeyRule 2 fakePath)
               (checkForSecrets lineApiKey 2 fakePath [])) = 1
   \<and> type (secretIssue apiKeyRule 2 fakePath) = Secret
   \<and> severity (secretIssue apiKeyRule 2 fakePath) = High
   \<and> checkForSecrets lineApiKey 2 fakePath [] = [secretIssue apiKeyRule 2 fakePath]"
proof -
  have h1: "\<not> includes_js lineApiKey (str ''process.env'')" by code_simp
  have h2: "\<not> includes_js lineApiKey (str ''$ENV'')" by code_simp
  have r: "apiKeyRule \<in> set secretPatterns" by (simp add: secretPatterns_def)
  have t: "test (pattern apiKeyRule) lineApiKey" by code_simp
  have n: "\<not> test (pattern passwordRule) lineApiKey"
    "\<not> test (pattern privateKeyRule) lineApiKey" "\<not> test (pattern tokenRule) lineApiKey"
    by code_simp+
  note c = one_secret_finding_per_matching_rule [OF h1 h2, of 2 fakePath "[]"]
  from c have "checkForSecrets lineApiKey 2 fakePath [] = [secretIssue apiKeyRule 2 fakePath]"
    by (simp add: secretPatterns_def t n)
  moreover from c r t
  have "length (filter (\<lambda>i. i = secretIssue apiKeyRule 2 fakePath)
               (checkForSecrets lineApiKey 2 fakePath [])) = 1
      \<and> type (secretIssue apiKeyRule 2 fakePath) = Secret
      \<and> severity (secretIssue apiKeyRule 2 fakePath) = High"
    by blast
  ultimately show ?thesis using h1 h2 r t by simp
qed

text \<open>
  C3. When the read succeeds the complexity score is \<open>1\<close> plus the number of
  occurrences of the conditional and loop patterns on the lines that are not blank, cut
  at \<open>100\<close>. So a content with at least as many occurrences has at least the same
  score, and the score of any file, read or not, lies between \<open>1\<close> and \<open>100\<close>.
\<close>

theorem complexity_is_clamped_count:
  "(fs_readFile rt p = Inr content \<longrightarrow>
      calculateComplexity rt p = ([ReadFile p], Inr (complexityOf content))
      \<and> complexityOf content = min 100 (1 + totalOccurrences content))
   \<and> (totalOccurrences c1 \<le> totalOccurrences c2 \<longrightarrow> complexityOf c1 \<le> complexityOf c2)
   \<and> (\<exists>s. snd (calculateComplexity rt p) = Inr s \<and> 1 \<le> s \<and> s \<le> 100)"
proof -
  have "1 \<le> complexityOf c \<and> complexityOf c \<le> 100" for c
    by (simp add: complexityOf_eq)
  then have "\<exists>s. snd (calculateComplexity rt p) = Inr s \<and> 1 \<le> s \<and> s \<le> 100"
    by (cases "fs_readFile rt p") (simp_all add: calculateComplexity_cases)
  moreover have "totalOccurrences c1 \<le> totalOccurrences c2 \<longrightarrow> complexityOf c1 \<le> complexityOf c2"
    unfolding complexityOf_eq by (auto simp: min_def)
  ultimately show ?thesis
    using calculateComplexity_read_ok [of rt p content] complexityOf_eq [of content] by blast
qed

theorem complexity_is_clamped_count_witness:
  "fs_readFile (mockRuntime sampleSource) fakePath = Inr sampleSource
   \<and> totalOccurrences sampleSource = 2
   \<and> calculateComplexity (mockRuntime sampleSource) fakePath = ([ReadFile fakePath], Inr 3)
   \<and> totalOccurrences (str ''x = 1'') \<le> totalOccurrences sampleSource
   \<and> complexityOf (str ''x = 1'') \<le> complexityOf sampleSource"
proof -
  note r = sampleSource_read and t = sampleSource_occurrences
  have t0: "totalOccurrences (str ''x = 1'') = 0" by code_simp
  note c = complexity_is_clamped_count
    [of "mockRuntime sampleSource" fakePath sampleSource "str ''x = 1''" sampleSource]
  from c r t have "calculateComplexity (mockRuntime sampleSource) fakePath =
      ([ReadFile fakePath], Inr 3)"
    by simp
  moreover from c t t0 have "complexityOf (str ''x = 1'') \<le> complexityOf sampleSource" by simp
  ultimately show ?thesis using r t t0 by simp
qed

text \<open>
  C4. A file larger than the configured maximum is not analysed: after the one call of
  \<^verbatim>\<open>fs.stat\<close> the report has the complexity \<open>0\<close>, the one finding that the file is
  too large, of low severity, and one suggestion, whatever the file holds and whatever the
  toggles are. No file is read; the line scanner and the complexity estimator both read
  the file when they are called.
\<close>

theorem oversize_file_is_skipped:
  assumes "fs_stat rt p = Inr st" and "int (stats_size st) > maxFileSize config"
  shows "FileService_analyzeFile rt config p =
           ([Stat p],
            Inr \<lparr>path = p, language = detectLanguage rt p, size_bytes = stats_size st,
                 complexity = 0, issues = [tooLarge (stats_size st)],
                 suggestions =
                   [str ''File is too large - consider refactoring into smaller files'']\<rparr>)
       \<and> type (tooLarge (stats_size st)) = PotentialBug
       \<and> severity (tooLarge (stats_size st)) = Low
       \<and> includes_js (message (tooLarge (stats_size st))) (str ''File too large'')
       \<and> ReadFile p \<in> set (fst (CodeAnalyzer_analyzeFile rt p))
       \<and> ReadFile p \<in> set (fst (calculateComplexity rt p))"
proof -
  have "message (tooLarge n) =
          str ''File too large'' @ (str '' to analyze ('' @ megabytes n @ str ''MB)'')" for n
    by (simp add: tooLarge_def str_def)
  then have "includes_js (message (tooLarge n)) (str ''File too large'')" for n
    by (simp only: includes_prefix)
  moreover have "type (tooLarge n) = PotentialBug \<and> severity (tooLarge n) = Low" for n
    by (simp add: tooLarge_def)
  ultimately show ?thesis
    by (simp add: FileService_analyzeFile_oversize [OF assms] analyzeFile_cases
          calculateComplexity_cases)
qed

theorem oversize_file_is_skipped_witness:
  "fs_stat (mockRuntime sampleSource) fakePath = Inr \<lparr>stats_size = 37, isDirectory = False\<rparr>
   \<and> int (stats_size \<lparr>stats_size = 37, isDirectory = False\<rparr>) > maxFileSize (testConfig True True 36)
   \<and> FileService_analyzeFile (mockRuntime sampleSource) (testConfig True True 36) fakePath =
       ([Stat fakePath],
        Inr \<lparr>path = fakePath, language = str ''text'', size_bytes = 37, complexity = 0,
             issues = [tooLarge 37],
             suggestions = [str ''File is too large - consider refactoring into smaller files'']\<rparr>)
   \<and> message (tooLarge 37) = str ''File too large to analyze (0.0MB)''"
proof -
  note s = sampleSource_stat and l = sampleSource_language
  have g: "int (stats_size \<lparr>stats_size = 37, isDirectory = False\<rparr>) > maxFileSize (testConfig True True 36)"
    by (simp add: testConfig_def)
  have m: "message (tooLarge 37) = str ''File too large to analyze (0.0MB)''"
    by (simp add: tooLarge_def megabytes_def str_def)
  from oversize_file_is_skipped [OF s g] l m s g show ?thesis by simp
qed

text \<open>
  C5. When the read fails the line scanner returns one finding and scans no line: a
  potential bug of low severity, without line number, whose message starts with
  \<^verbatim>\<open>Could not read file\<close>. The complexity estimator then returns the score \<open>1\<close>
  and throws nothing.
\<close>

theorem read_failure_recovery:
  assumes "fs_readFile rt p = Inl err"
  shows "CodeAnalyzer_analyzeFile rt p = ([ReadFile p], Inr [couldNotRead err p])
       \<and> type (couldNotRead err p) = PotentialBug
       \<and> severity (couldNotRead err p) = Low
       \<and> includes_js (message (couldNotRead err p)) (str ''Could not read file'')
       \<and> line (couldNotRead err p) = None
       \<and> calculateComplexity rt p = ([ReadFile p], Inr 1)"
proof -
  have "type (couldNotRead err p) = PotentialBug \<and> severity (couldNotRead err p) = Low
      \<and> line (couldNotRead err p) = None"
    by (simp add: couldNotRead_def)
  then show ?thesis
    using analyzeFile_read_fails [OF assms] calculateComplexity_read_fails [OF assms]
      couldNotRead_indicator [of err p]
    by blast
qed

theorem read_failure_recovery_witness:
  "fs_readFile (failingRuntime (str ''Error: File not found'')) fakePath =
     Inl (str ''Error: File not found'')
   \<and> CodeAnalyzer_analyzeFile (failingRuntime (str ''Error: File not found'')) fakePath =
       ([ReadFile fakePath],
        Inr [\<lparr>type = PotentialBug, severity = Low,
              message = str ''Could not read file: Error: File not found'',
              file_path = Some fakePath, line = None, suggestion = None\<rparr>])
   \<and> calculateComplexity (failingRuntime (str ''Error: File not found'')) fakePath =
       ([ReadFile fakePath], Inr 1)"
proof -
  have r: "fs_readFile (failingRuntime (str ''Error: File not found'')) fakePath =
     Inl (str ''Error: File not found'')"
    by (simp add: failingRuntime_def)
  have c: "couldNotRead (str ''Error: File not found'') fakePath =
      \<lparr>type = PotentialBug, severity = Low,
       message = str ''Could not read file: Error: File not found'',
       file_path = Some fakePath, line = None, suggestion = None\<rparr>"
    by (simp add: couldNotRead_def str_def)
  from read_failure_recovery [OF r] c r show ?thesis by simp
qed

text \<open>
  C6, as stated, fails: a secret rule whose pattern matches a line is not reported when
  the line holds a marker. The line below matches the password pattern and the scanner
  returns no finding for the file that consists of it.
\<close>

theorem suppressed_match_is_not_reported:
  "test (pattern passwordRule) lineProcessEnvPassword
   \<and> fs_readFile (mockRuntime lineProcessEnvPassword) fakePath = Inr lineProcessEnvPassword
   \<and> split lineProcessEnvPassword 0x0A = [lineProcessEnvPassword]
   \<and> snd (CodeAnalyzer_analyzeFile (mockRuntime lineProcessEnvPassword) fakePath) = Inr []"
proof -
  have "test (pattern passwordRule) lineProcessEnvPassword" by code_simp
  moreover have "fs_readFile (mockRuntime lineProcessEnvPassword) fakePath = Inr lineProcessEnvPassword"
    by (simp add: mockRuntime_def)
  moreover have "split lineProcessEnvPassword 0x0A = [lineProcessEnvPassword]" by code_simp
  moreover have "snd (CodeAnalyzer_analyzeFile (mockRuntime lineProcessEnvPassword) fakePath) = Inr []"
    by code_simp
  ultimately show ?thesis by simp
qed

text \<open>
  C6, amended. When the read succeeds, the content is split at every line feed (the
  pieces joined by line feeds are the content, no piece holds a line feed, and there is
  one piece more than there are line feeds, so a final line feed gives a last, empty
  line). The scanner returns, line after line and with the number of the line counted from
  \<open>1\<close>, one finding for every secret rule whose pattern matches a line without marker,
  then one finding for every common-issue rule whose pattern matches the line: every rule
  that fires is reported, none twice, and no rule stops the others.
\<close>

theorem scanner_reports_per_line:
  assumes "fs_readFile rt p = Inr content"
  shows "snd (CodeAnalyzer_analyzeFile rt p) =
           Inr (concat (map (\<lambda>(i, l). lineFindings l (i + 1) p)
                            (enumerate 0 (split content 0x0A))))
       \<and> join (split content 0x0A) 0x0A = content
       \<and> (\<forall>l \<in> set (split content 0x0A). 0x0A \<notin> set l)
       \<and> length (split content 0x0A) = count_list content 0x0A + 1"
  using analyzeFile_read_ok [OF assms] by (simp add: join_split split_no_sep split_length)

theorem scanner_reports_per_line_witness:
  "fs_readFile (mockRuntime sampleSource) fakePath = Inr sampleSource
   \<and> length (split sampleSource 0x0A) = 3
   \<and> snd (CodeAnalyzer_analyzeFile (mockRuntime sampleSource) fakePath) =
       Inr [commonIssue consoleLogRule 1 fakePath, commonIssue todoRule 1 fakePath]"
proof -
  note r = sampleSource_read
  have n: "count_list sampleSource 0x0A = 2" by code_simp
  have e: "concat (map (\<lambda>(i, l). lineFindings l (i + 1) fakePath)
                       (enumerate 0 (split sampleSource 0x0A))) =
           [commonIssue consoleLogRule 1 fakePath, commonIssue todoRule 1 fakePath]"
    using forEachLine_eq [of "split sampleSource 0x0A" 0 fakePath "[]"]
    by (simp add: sampleSource_findings)
  from scanner_reports_per_line [OF r] r n e show ?thesis by simp
qed

text \<open>
  C7. The suggestions are the concatenation, in this order, of: the suggestion to split
  the file when the complexity is over \<open>20\<close>, the suggestion to refactor when it is
  over \<open>50\<close>, the suggestion to move sensitive data when some finding is a secret, the
  suggestion to address the TODO comments when more than three findings have a message
  that contains \<^verbatim>\<open>TODO\<close>, and the suggestion of ESLint and Prettier when the language
  is \<^verbatim>\<open>javascript\<close> or \<^verbatim>\<open>typescript\<close>. Each one is in the list exactly when its
  condition holds.
\<close>

theorem suggestions_follow_checks:
  "generateSuggestions found c lang =
     (if c > 20 then [str ''Consider breaking this file into smaller, more focused modules''] else [])
     @ (if c > 50 then [str ''High complexity detected - refactoring recommended''] else [])
     @ (if \<exists>i \<in> set found. type i = Secret
        then [str ''Move sensitive data to environment variables or secure config files''] else [])
     @ (if length (filter (\<lambda>i. includes_js (message i) (str ''TODO'')) found) > 3
        then [str ''Consider addressing TODO comments or creating issues for them''] else [])
     @ (if lang = str ''javascript'' \<or> lang = str ''typescript''
        then [str ''Consider using ESLint and Prettier for code quality''] else [])
   \<and> (str ''Consider breaking this file into smaller, more focused modules''
         \<in> set (generateSuggestions found c lang) \<longleftrightarrow> c > 20)
   \<and> (str ''High complexity detected - refactoring recommended''
         \<in> set (generateSuggestions found c lang) \<longleftrightarrow> c > 50)
   \<and> (str ''Move sensitive data to environment variables or secure config files''
         \<in> set (generateSuggestions found c lang) \<longleftrightarrow> (\<exists>i \<in> set found. type i = Secret))
   \<and> (str ''Consider addressing TODO comments or creating issues for them''
         \<in> set (generateSuggestions found c lang) \<longleftrightarrow>
       length (filter (\<lambda>i. includes_js (message i) (str ''TODO'')) found) > 3)
   \<and> (str ''Consider using ESLint and Prettier for code quality''
         \<in> set (generateSuggestions found c lang) \<longleftrightarrow>
       lang = str ''javascript'' \<or> lang = str ''typescript'')"
proof -
  have s: "(length (filter P found) > 0) = (\<exists>i \<in> set found. P i)" for P
    by (simp add: filter_empty_conv)
  have e: "generateSuggestions found c lang =
     (if c > 20 then [str ''Consider breaking this file into smaller, more focused modules''] else [])
     @ (if c > 50 then [str ''High complexity detected - refactoring recommended''] else [])
     @ (if \<exists>i \<in> set found. type i = Secret
        then [str ''Move sensitive data to environment variables or secure config files''] else [])
     @ (if length (filter (\<lambda>i. includes_js (message i) (str ''TODO'')) found) > 3
        then [str ''Consider addressing TODO comments or creating issues for them''] else [])
     @ (if lang = str ''javascript'' \<or> lang = str ''typescript''
        then [str ''Consider using ESLint and Prettier for code quality''] else [])"
    unfolding generateSuggestions_def Let_def s by simp
  show ?thesis
    unfolding e by (simp add: str_def)
qed

theorem suggestions_follow_checks_witness:
  "generateSuggestions
     [secretIssue apiKeyRule 1 fakePath, commonIssue todoRule 2 fakePath,
      commonIssue todoRule 3 fakePath, commonIssue todoRule 5 fakePath,
      commonIssue todoRule 8 fakePath]
     60 (str ''typescript'') =
     [str ''Consider breaking this file into smaller, more focused modules'',
      str ''High complexity detected - refactoring recommended'',
      str ''Move sensitive data to environment variables or secure config files'',
      str ''Consider addressing TODO comments or creating issues for them'',
      str ''Consider using ESLint and Prettier for code quality'']
   \<and> generateSuggestions [commonIssue todoRule 2 fakePath] 21 (str ''python'') =
     [str ''Consider breaking this file into smaller, more focused modules'']"
proof -
  let ?found = "[secretIssue apiKeyRule 1 fakePath, commonIssue todoRule 2 fakePath,
      commonIssue todoRule 3 fakePath, commonIssue todoRule 5 fakePath,
      commonIssue todoRule 8 fakePath]"
  have t: "includes_js (message (commonIssue todoRule n fakePath)) (str ''TODO'')" for n
  proof -
    have "includes_js (str ''TODO/FIXME comment found'') (str ''TODO'')" by code_simp
    then show ?thesis by (simp add: commonIssue_def todoRule_def)
  qed
  have u: "\<not> includes_js (message (secretIssue apiKeyRule n fakePath)) (str ''TODO'')" for n
  proof -
    have "\<not> includes_js (str ''Potential '' @ str ''API key'' @ str '' found in code'') (str ''TODO'')"
      by code_simp
    then show ?thesis by (simp add: secretIssue_def apiKeyRule_def)
  qed
  have s: "type (secretIssue apiKeyRule n fakePath) = Secret"
    and c: "type (commonIssue todoRule n fakePath) = PotentialBug" for n
    by (simp_all add: secretIssue_def commonIssue_def)
  have p: "str ''python'' \<noteq> str ''javascript''" "str ''python'' \<noteq> str ''typescript''"
    by (simp_all add: str_def)
  have a: "generateSuggestions ?found 60 (str ''typescript'') =
     [str ''Consider breaking this file into smaller, more focused modules'',
      str ''High complexity detected - refactoring recommended'',
      str ''Move sensitive data to environment variables or secure config files'',
      str ''Consider addressing TODO comments or creating issues for them'',
      str ''Consider using ESLint and Prettier for code quality'']"
    using suggestions_follow_checks [of ?found 60 "str ''typescript''"]
    by (simp add: t u s c)
  have b: "generateSuggestions [commonIssue todoRule 2 fakePath] 21 (str ''python'') =
     [str ''Consider breaking this file into smaller, more focused modules'']"
    using suggestions_follow_checks [of "[commonIssue todoRule 2 fakePath]" 21 "str ''python''"]
    by (simp add: t c p)
  from a b show ?thesis by simp
qed

text \<open>
  C8. When the target path does not exist, the batch call throws after the one question
  whether the path exists, before anything is done for a file. When the target is a
  directory whose files were listed, the call returns the reports of the files whose
  analysis did not throw, in the order of the list, and every file of the list was
  analysed (its \<^verbatim>\<open>fs.stat\<close> took place), whichever files failed. When the target is a single
  file, its analysis does not throw and the call returns its report.
\<close>

theorem batch_survives_file_failures:
  "(\<not> fs_pathExists rt t \<longrightarrow>
      analyzeFiles rt config t opts =
        ([PathExists t], Inl (newError (str ''Path does not exist: '' @ t))))
   \<and> (fs_pathExists rt t \<and> fs_stat rt t = Inr st \<and> isDirectory st
        \<and> glob rt (globPattern opts) t (globDot opts) = Inr files \<longrightarrow>
      snd (analyzeFiles rt config t opts) = Inr (successes rt config (filesToAnalyze opts files))
      \<and> (\<forall>f \<in> set (filesToAnalyze opts files). Stat f \<in> set (fst (analyzeFiles rt config t opts))))
   \<and> (fs_pathExists rt t \<and> fs_stat rt t = Inr st \<and> \<not> isDirectory st \<longrightarrow>
      (\<exists>a. snd (FileService_analyzeFile rt config t) = Inr a
           \<and> snd (analyzeFiles rt config t opts) = Inr [a]))"
proof (intro conjI impI)
  assume "\<not> fs_pathExists rt t"
  then show "analyzeFiles rt config t opts =
        ([PathExists t], Inl (newError (str ''Path does not exist: '' @ t)))"
    by (simp add: analyzeFiles_def andThen_def pathExists_def throw_def)
next
  assume a: "fs_pathExists rt t \<and> fs_stat rt t = Inr st \<and> isDirectory st
        \<and> glob rt (globPattern opts) t (globDot opts) = Inr files"
  let ?fs = "filesToAnalyze opts files"
  from a have e: "analyzeFiles rt config t opts =
      ([PathExists t, Stat t, Glob (globPattern opts) t (globDot opts)]
         @ fst (forFiles rt config ?fs []),
       snd (forFiles rt config ?fs []))"
    by (simp add: analyzeFiles_def andThen_def pathExists_def stat_def globFiles_def
          split: prod.splits)
  show "snd (analyzeFiles rt config t opts) = Inr (successes rt config ?fs)"
    by (simp add: e forFiles_result)
  show "\<forall>f \<in> set ?fs. Stat f \<in> set (fst (analyzeFiles rt config t opts))"
    by (simp add: e forFiles_effects)
next
  assume a: "fs_pathExists rt t \<and> fs_stat rt t = Inr st \<and> \<not> isDirectory st"
  then obtain r where r: "snd (FileService_analyzeFile rt config t) = Inr r"
    using FileService_analyzeFile_stat_ok [of rt t st config] by auto
  with a have "snd (analyzeFiles rt config t opts) = Inr [r]"
    by (cases "FileService_analyzeFile rt config t")
       (simp add: analyzeFiles_def andThen_def pathExists_def stat_def ret_def)
  with r show "\<exists>a. snd (FileService_analyzeFile rt config t) = Inr a
           \<and> snd (analyzeFiles rt config t opts) = Inr [a]" by simp
qed

theorem batch_survives_file_failures_witness:
  "\<not> fs_pathExists dirRuntime (str ''/nope'')
   \<and> analyzeFiles dirRuntime (testConfig True True 100) (str ''/nope'') cliOptions =
       ([PathExists (str ''/nope'')], Inl (newError (str ''Path does not exist: '' @ str ''/nope'')))
   \<and> fs_pathExists dirRuntime (str ''/d'')
   \<and> fs_stat dirRuntime (str ''/d'') = Inr \<lparr>stats_size = 4096, isDirectory = True\<rparr>
   \<and> isDirectory \<lparr>stats_size = 4096, isDirectory = True\<rparr>
   \<and> glob dirRuntime (globPattern cliOptions) (str ''/d'') (globDot cliOptions) =
       Inr [str ''/d/a'', str ''/d/b'', str ''/d/c'']
   \<and> filesToAnalyze cliOptions [str ''/d/a'', str ''/d/b'', str ''/d/c''] =
       [str ''/d/a'', str ''/d/b'', str ''/d/c'']
   \<and> fs_stat dirRuntime (str ''/d/b'') = Inl (str ''Error: ENOENT'')
   \<and> snd (analyzeFiles dirRuntime (testConfig True True 100) (str ''/d'') cliOptions) =
       Inr (successes dirRuntime (testConfig True True 100) [str ''/d/a'', str ''/d/b'', str ''/d/c''])
   \<and> map path (successes dirRuntime (testConfig True True 100)
                 [str ''/d/a'', str ''/d/b'', str ''/d/c'']) = [str ''/d/a'', str ''/d/c'']
   \<and> Stat (str ''/d/c'') \<in> set (fst (analyzeFiles dirRuntime (testConfig True True 100) (str ''/d'') cliOptions))
   \<and> fs_pathExists dirRuntime (str ''/d/a'')
   \<and> fs_stat dirRuntime (str ''/d/a'') = Inr \<lparr>stats_size = 6, isDirectory = False\<rparr>
   \<and> \<not> isDirectory \<lparr>stats_size = 6, isDirectory = False\<rparr>
   \<and> map_sum id (map path)
        (snd (analyzeFiles dirRuntime (testConfig True True 100) (str ''/d/a'') cliOptions)) =
       Inr [str ''/d/a'']"
proof -
  let ?cfg = "testConfig True True 100"
  let ?files = "[str ''/d/a'', str ''/d/b'', str ''/d/c'']"
  have n: "\<not> fs_pathExists dirRuntime (str ''/nope'')" by code_simp
  have d: "fs_pathExists dirRuntime (str ''/d'')" by code_simp
  have sd: "fs_stat dirRuntime (str ''/d'') = Inr \<lparr>stats_size = 4096, isDirectory = True\<rparr>"
    by (simp add: dirRuntime_def)
  have g: "glob dirRuntime (globPattern cliOptions) (str ''/d'') (globDot cliOptions) = Inr ?files"
    by (simp add: dirRuntime_def)
  have f: "filesToAnalyze cliOptions ?files = ?files"
    by (simp add: filesToAnalyze_def cliOptions_def slice0_def)
  have sb: "fs_stat dirRuntime (str ''/d/b'') = Inl (str ''Error: ENOENT'')"
    by (simp add: dirRuntime_def str_def)
  have m: "map path (successes dirRuntime ?cfg ?files) = [str ''/d/a'', str ''/d/c'']"
    by code_simp
  have a: "fs_pathExists dirRuntime (str ''/d/a'')" by code_simp
  have sa: "fs_stat dirRuntime (str ''/d/a'') = Inr \<lparr>stats_size = 6, isDirectory = False\<rparr>"
    by (simp add: dirRuntime_def str_def)
  have pa: "map_sum id path (snd (FileService_analyzeFile dirRuntime ?cfg (str ''/d/a''))) =
      Inr (str ''/d/a'')"
    by code_simp
  have c1: "analyzeFiles dirRuntime ?cfg (str ''/nope'') cliOptions =
       ([PathExists (str ''/nope'')], Inl (newError (str ''Path does not exist: '' @ str ''/nope'')))"
    using batch_survives_file_failures [of dirRuntime "str ''/nope''" ?cfg cliOptions] n by blast
  have c2: "snd (analyzeFiles dirRuntime ?cfg (str ''/d'') cliOptions) =
       Inr (successes dirRuntime ?cfg ?files)
     \<and> Stat (str ''/d/c'') \<in> set (fst (analyzeFiles dirRuntime ?cfg (str ''/d'') cliOptions))"
    using batch_survives_file_failures
      [of dirRuntime "str ''/d''" ?cfg cliOptions "\<lparr>stats_size = 4096, isDirectory = True\<rparr>" ?files]
      d sd g f
    by simp
  have c3: "map_sum id (map path) (snd (analyzeFiles dirRuntime ?cfg (str ''/d/a'') cliOptions)) =
       Inr [str ''/d/a'']"
    using batch_survives_file_failures
      [of dirRuntime "str ''/d/a''" ?cfg cliOptions "\<lparr>stats_size = 6, isDirectory = False\<rparr>"]
      a sa pa
    by auto
  from n d sd g f sb m a sa c1 c2 c3 show ?thesis by simp
qed

text \<open>
  C9. For a file within the size limit, a configuration with secret detection disabled
  gives a report without findings: the line scanner is not called, so neither its secret
  findings nor its common-issue findings nor its finding of a failed read appear.
\<close>

theorem no_issues_without_secret_detection:
  assumes "fs_stat rt p = Inr st" and "int (stats_size st) \<le> maxFileSize config"
    and "\<not> enableSecretDetection config"
  shows "\<exists>a. snd (FileService_analyzeFile rt config p) = Inr a \<and> issues a = []"
  using assms by (simp add: FileService_analyzeFile_within)

theorem no_issues_without_secret_detection_witness:
  "fs_stat dirRuntime (str ''/d/c'') = Inr \<lparr>stats_size = 6, isDirectory = False\<rparr>
   \<and> int (stats_size \<lparr>stats_size = 6, isDirectory = False\<rparr>) \<le> maxFileSize (testConfig False True 100)
   \<and> \<not> enableSecretDetection (testConfig False True 100)
   \<and> snd (CodeAnalyzer_analyzeFile dirRuntime (str ''/d/c'')) =
       Inr [commonIssue todoRule 1 (str ''/d/c'')]
   \<and> map_sum id issues (snd (FileService_analyzeFile dirRuntime (testConfig False True 100) (str ''/d/c''))) =
       Inr []
   \<and> fs_stat (failingRuntime (str ''Error: EACCES'')) fakePath = Inr \<lparr>stats_size = 0, isDirectory = False\<rparr>
   \<and> map_sum id issues
        (snd (FileService_analyzeFile (failingRuntime (str ''Error: EACCES'')) (testConfig False True 100) fakePath)) =
       Inr []"
proof -
  let ?cfg = "testConfig False True 100"
  have s: "fs_stat dirRuntime (str ''/d/c'') = Inr \<lparr>stats_size = 6, isDirectory = False\<rparr>"
    by (simp add: dirRuntime_def str_def)
  have l: "int (stats_size \<lparr>stats_size = 6, isDirectory = False\<rparr>) \<le> maxFileSize ?cfg"
    and l0: "int (stats_size \<lparr>stats_size = 0, isDirectory = False\<rparr>) \<le> maxFileSize ?cfg"
    and e: "\<not> enableSecretDetection ?cfg"
    by (simp_all add: testConfig_def)
  have c: "snd (CodeAnalyzer_analyzeFile dirRuntime (str ''/d/c'')) =
       Inr [commonIssue todoRule 1 (str ''/d/c'')]"
    by code_simp
  have s0: "fs_stat (failingRuntime (str ''Error: EACCES'')) fakePath =
      Inr \<lparr>stats_size = 0, isDirectory = False\<rparr>"
    by (simp add: failingRuntime_def)
  have a: "map_sum id issues (snd (FileService_analyzeFile dirRuntime ?cfg (str ''/d/c''))) = Inr []"
    using no_issues_without_secret_detection [OF s l e] by auto
  have b: "map_sum id issues
        (snd (FileService_analyzeFile (failingRuntime (str ''Error: EACCES'')) ?cfg fakePath)) = Inr []"
    using no_issues_without_secret_detection [OF s0 l0 e] by auto
  from s l e c s0 a b show ?thesis by simp
qed

text \<open>
  C10. The comparison with the maximum is strict. A file whose size is the maximum is
  analysed in full: the scanner runs if secret detection is enabled, the estimator if
  complexity analysis is enabled, and the report holds their results and the suggestions
  drawn from them. The safe read of such a file, when it exists, reads it as well and
  returns its content, or the failure of the read.
\<close>

theorem size_limit_is_inclusive:
  assumes "fs_stat rt p = Inr st" and "int (stats_size st) = maxFileSize config"
  shows "(\<exists>found c. snd (CodeAnalyzer_analyzeFile rt p) = Inr found
            \<and> snd (calculateComplexity rt p) = Inr c
            \<and> FileService_analyzeFile rt config p =
                ([Stat p] @ (if enableSecretDetection config then [ReadFile p] else [])
                          @ (if enableComplexityAnalysis config then [ReadFile p] else []),
                 Inr \<lparr>path = p, language = detectLanguage rt p, size_bytes = stats_size st,
                      complexity = (if enableComplexityAnalysis config then c else 0),
                      issues = (if enableSecretDetection config then found else []),
                      suggestions =
                        generateSuggestions
                          (if enableSecretDetection config then found else [])
                          (if enableComplexityAnalysis config then c else 0)
                          (detectLanguage rt p)\<rparr>))
       \<and> (fs_pathExists rt p \<longrightarrow>
            FileService_readFile rt config p =
              ([PathExists p, Stat p, ReadFile p],
               Inr (case fs_readFile rt p of
                      Inl e \<Rightarrow> \<lparr>success = False, output_text = None,
                                error_text = Some (str ''Failed to read file: '' @ e),
                                warnings = None\<rparr>
                    | Inr content \<Rightarrow> \<lparr>success = True, output_text = Some content,
                                      error_text = None, warnings = None\<rparr>)))"
proof -
  have w: "\<not> int (stats_size st) > maxFileSize config" using assms(2) by simp
  show ?thesis
    using FileService_analyzeFile_within [OF assms(1) w] FileService_readFile_within [OF _ assms(1) w]
    by (simp add: analyzeFile_cases calculateComplexity_cases)
qed

theorem size_limit_is_inclusive_witness:
  "fs_stat (mockRuntime sampleSource) fakePath = Inr \<lparr>stats_size = 37, isDirectory = False\<rparr>
   \<and> int (stats_size \<lparr>stats_size = 37, isDirectory = False\<rparr>) = maxFileSize (testConfig True True 37)
   \<and> fs_pathExists (mockRuntime sampleSource) fakePath
   \<and> FileService_analyzeFile (mockRuntime sampleSource) (testConfig True True 37) fakePath =
       ([Stat fakePath, ReadFile fakePath, ReadFile fakePath],
        Inr \<lparr>path = fakePath, language = str ''text'', size_bytes = 37, complexity = 3,
             issues = [commonIssue consoleLogRule 1 fakePath, commonIssue todoRule 1 fakePath],
             suggestions = []\<rparr>)
   \<and> FileService_readFile (mockRuntime sampleSource) (testConfig True True 37) fakePath =
       ([PathExists fakePath, Stat fakePath, ReadFile fakePath],
        Inr \<lparr>success = True, output_text = Some sampleSource, error_text = None,
             warnings = None\<rparr>)"
proof -
  let ?rt = "mockRuntime sampleSource"
  let ?cfg = "testConfig True True 37"
  note s = sampleSource_stat and r = sampleSource_read and l = sampleSource_language
  have e: "int (stats_size \<lparr>stats_size = 37, isDirectory = False\<rparr>) = maxFileSize ?cfg"
    by (simp add: testConfig_def)
  have x: "fs_pathExists ?rt fakePath"
    by (simp add: mockRuntime_def)
  have t: "enableSecretDetection ?cfg" "enableComplexityAnalysis ?cfg"
    by (simp_all add: testConfig_def)
  have f: "snd (CodeAnalyzer_analyzeFile ?rt fakePath) =
      Inr [commonIssue consoleLogRule 1 fakePath, commonIssue todoRule 1 fakePath]"
    by (simp add: analyzeFile_cases r sampleSource_findings)
  have c: "snd (calculateComplexity ?rt fakePath) = Inr 3"
    by (simp add: calculateComplexity_cases r complexityOf_eq sampleSource_occurrences)
  have g: "generateSuggestions
      [commonIssue consoleLogRule 1 fakePath, commonIssue todoRule 1 fakePath] 3 (str ''text'') = []"
    by code_simp
  from size_limit_is_inclusive [OF s e] x r t l f c g s e show ?thesis by auto
qed

end
